theory Spec2Isabelle
  imports Main
begin

section \<open>The cart of \<^verbatim>\<open>src/cart.js\<close>\<close>

text \<open>
  The script keeps a shopping cart in \<^verbatim>\<open>localStorage\<close> and projects it into a header
  badge, the cart page and the checkout summary. Its functions are embedded one by one:
  the state they act on (the storage and the elements of the page they touch) is a record
  that every function takes and returns, an uncaught exception is an outcome of its own.
\<close>

subsection \<open>Numbers\<close>

text \<open>
  The value of a \<^verbatim>\<open>quantity\<close> field at run time: a number, \<^verbatim>\<open>NaN\<close> (what
  \<^verbatim>\<open>parseInt\<close> gives for a text without digits) or \<^verbatim>\<open>null\<close> (what
  \<^verbatim>\<open>JSON.parse\<close> gives for a quantity written as \<^verbatim>\<open>null\<close>). A number is an
  integer, standing for the double of that value. \<^verbatim>\<open>+\<close> and \<^verbatim>\<open>*\<close>, which the
  script uses for its totals, are embedded as the exact operations: they are what the
  script computes as long as the results stay below \<^verbatim>\<open>2^53\<close>. \<^verbatim>\<open>++\<close>, which changes
  a stored quantity, is embedded with the rounding of doubles.
\<close>

datatype jsnum = Num int | NaN | Null

text \<open>\<^verbatim>\<open>ToNumber\<close>: \<^verbatim>\<open>null\<close> counts as \<^verbatim>\<open>0\<close> in arithmetic and comparisons.\<close>

fun ToNumber :: "jsnum \<Rightarrow> jsnum" where
  "ToNumber Null = Num 0"
| "ToNumber v = v"

text \<open>\<^verbatim>\<open>a + b\<close> on these values.\<close>

fun plus_js :: "jsnum \<Rightarrow> jsnum \<Rightarrow> jsnum" where
  "plus_js a b =
     (case (ToNumber a, ToNumber b) of
        (Num x, Num y) \<Rightarrow> Num (x + y)
      | _ \<Rightarrow> NaN)"

text \<open>\<^verbatim>\<open>a * b\<close> on these values.\<close>

fun times_js :: "jsnum \<Rightarrow> jsnum \<Rightarrow> jsnum" where
  "times_js a b =
     (case (ToNumber a, ToNumber b) of
        (Num x, Num y) \<Rightarrow> Num (x * y)
      | _ \<Rightarrow> NaN)"

text \<open>\<^verbatim>\<open>a < b\<close> and \<^verbatim>\<open>a > b\<close>: every comparison with \<^verbatim>\<open>NaN\<close> is false.\<close>

fun less_js :: "jsnum \<Rightarrow> jsnum \<Rightarrow> bool" where
  "less_js a b =
     (case (ToNumber a, ToNumber b) of
        (Num x, Num y) \<Rightarrow> x < y
      | _ \<Rightarrow> False)"

definition greater_js :: "jsnum \<Rightarrow> jsnum \<Rightarrow> bool" where
  "greater_js a b = less_js b a"

text \<open>The number of binary digits of a positive integer.\<close>

function bitLength :: "int \<Rightarrow> nat" where
  "bitLength n = (if n \<le> 0 then 0 else Suc (bitLength (n div 2)))"
  by pat_completeness auto
termination
  by (relation "measure nat") auto

declare bitLength.simps [simp del]

text \<open>
  The double nearest to an integer, for integers within the range of the finite doubles.
  A double has 53 binary digits: an integer below \<^verbatim>\<open>2^53\<close> in absolute value is a
  double; a larger one is rounded to a multiple of \<open>2 ^ e\<close>, where \<open>e\<close> is the number of
  its digits beyond 53, to the nearest one, and to the one with the even quotient when it
  lies half-way between two.
\<close>

definition toDouble :: "int \<Rightarrow> int" where
  "toDouble n =
     (let a = \<bar>n\<bar> in
      if a < 2 ^ 53 then n
      else
        (let e = bitLength a - 53;
             q = a div 2 ^ e;
             r = a mod 2 ^ e;
             q' = (if 2 * r < 2 ^ e then q
                   else if 2 ^ e < 2 * r then q + 1
                   else if even q then q else q + 1)
         in sgn n * (q' * 2 ^ e)))"

text \<open>
  The value that \<^verbatim>\<open>x++\<close> stores back: the old value as a number, plus 1, as a double.
  So \<^verbatim>\<open>9007199254740992\<close>, which is \<^verbatim>\<open>2^53\<close>, stays what it is.
\<close>

definition increment :: "jsnum \<Rightarrow> jsnum" where
  "increment v =
     (case ToNumber v of
        Num n \<Rightarrow> Num (toDouble (n + 1))
      | _ \<Rightarrow> NaN)"

subsection \<open>\<^verbatim>\<open>parseInt(text, 10)\<close>\<close>

definition isWhiteSpace :: "char \<Rightarrow> bool" where
  "isWhiteSpace c = (c \<in> set [CHR '' '', CHR 0x09, CHR 0x0A, CHR 0x0B, CHR 0x0C, CHR 0x0D])"

definition isDigit :: "char \<Rightarrow> bool" where
  "isDigit c = (c \<in> set ''0123456789'')"

definition digitValue :: "char \<Rightarrow> int" where
  "digitValue c = int (of_char c) - 48"

definition digitsValue :: "string \<Rightarrow> int" where
  "digitsValue ds = foldl (\<lambda>a c. 10 * a + digitValue c) 0 ds"

text \<open>
  Leading white space is skipped, one sign is read, then the longest run of digits; a text
  with no digit there gives \<^verbatim>\<open>NaN\<close>.
\<close>

definition parseInt :: "string \<Rightarrow> jsnum" where
  "parseInt s =
     (let t = dropWhile isWhiteSpace s;
          neg = (case t of c # _ \<Rightarrow> c = CHR ''-'' | [] \<Rightarrow> False);
          u = (case t of c # r \<Rightarrow> (if c = CHR ''-'' \<or> c = CHR ''+'' then r else t) | [] \<Rightarrow> t);
          ds = takeWhile isDigit u
      in if ds = [] then NaN
         else Num (if neg then - digitsValue ds else digitsValue ds))"

subsection \<open>Products, cart lines and stored texts\<close>

text \<open>
  A product is what callers hand to \<^verbatim>\<open>addToCart\<close>; a cart line is a product with a
  quantity. The field \<^verbatim>\<open>id\<close> is written \<open>id'\<close>. A line in memory has a run-time value as
  its quantity; a line in a JSON text has a number or \<^verbatim>\<open>null\<close> there, since JSON has no
  \<^verbatim>\<open>NaN\<close>.
\<close>

record product =
  id' :: string
  name :: string
  price :: int
  img :: string

record 'q line = product +
  quantity :: 'q

type_synonym item = "jsnum line"
type_synonym json_item = "int option line"

text \<open>
  \<^verbatim>\<open>JSON.stringify\<close> writes a number as it is and both \<^verbatim>\<open>NaN\<close> and \<^verbatim>\<open>null\<close> as
  \<^verbatim>\<open>null\<close>; \<^verbatim>\<open>JSON.parse\<close> reads them back.
\<close>

fun stringify_number :: "jsnum \<Rightarrow> int option" where
  "stringify_number (Num n) = Some n"
| "stringify_number NaN = None"
| "stringify_number Null = None"

fun parse_number :: "int option \<Rightarrow> jsnum" where
  "parse_number (Some n) = Num n"
| "parse_number None = Null"

definition stringify_item :: "item \<Rightarrow> json_item" where
  "stringify_item l =
     \<lparr>id' = id' l, name = name l, price = price l, img = img l,
      quantity = stringify_number (quantity l)\<rparr>"

definition parse_item :: "json_item \<Rightarrow> item" where
  "parse_item l =
     \<lparr>id' = id' l, name = name l, price = price l, img = img l,
      quantity = parse_number (quantity l)\<rparr>"

text \<open>
  A text held by \<^verbatim>\<open>localStorage\<close>, by what \<^verbatim>\<open>JSON.parse\<close> makes of it: no JSON at all,
  JSON for a value that is not an array (\<^verbatim>\<open>null\<close>, a boolean, a number, a string, an
  object; the flag tells whether the value is truthy), or JSON for an array of lines.
\<close>

datatype stored = Unparseable | JsonNotArray bool | JsonArray "json_item list"

text \<open>What \<^verbatim>\<open>JSON.parse\<close> returns, and what \<^verbatim>\<open>getCart\<close> hands on.\<close>

datatype jsvalue = NotArray bool | Arr "item list"

datatype error = SyntaxError | TypeError

text \<open>
  \<^verbatim>\<open>JSON.parse(localStorage.getItem(key))\<close>: a missing key is \<^verbatim>\<open>null\<close>, which is parsed
  as the text \<^verbatim>\<open>null\<close>; a text that is no JSON raises \<^verbatim>\<open>SyntaxError\<close>.
\<close>

fun JSON_parse :: "stored option \<Rightarrow> error + jsvalue" where
  "JSON_parse None = Inr (NotArray False)"
| "JSON_parse (Some Unparseable) = Inl SyntaxError"
| "JSON_parse (Some (JsonNotArray t)) = Inr (NotArray t)"
| "JSON_parse (Some (JsonArray ls)) = Inr (Arr (map parse_item ls))"

definition JSON_stringify :: "item list \<Rightarrow> stored" where
  "JSON_stringify cart = JsonArray (map stringify_item cart)"

fun truthy :: "jsvalue \<Rightarrow> bool" where
  "truthy (NotArray t) = t"
| "truthy (Arr _) = True"

text \<open>
  The array methods the script calls (\<^verbatim>\<open>find\<close>, \<^verbatim>\<open>filter\<close>, \<^verbatim>\<open>reduce\<close>, \<^verbatim>\<open>push\<close>,
  \<^verbatim>\<open>forEach\<close>) exist on arrays only: on any other value the call raises \<^verbatim>\<open>TypeError\<close>.
\<close>

fun asArray :: "jsvalue \<Rightarrow> error + item list" where
  "asArray (Arr xs) = Inr xs"
| "asArray (NotArray _) = Inl TypeError"

subsection \<open>The page\<close>

text \<open>
  A text shown in an element: a text of the page's own, a number (\<^verbatim>\<open>textContent = n\<close>),
  or \<^verbatim>\<open>Ksh\<close> followed by \<^verbatim>\<open>n.toLocaleString()\<close>.
\<close>

datatype content = Str string | OfNumber jsnum | Ksh jsnum

record badge =
  textContent :: content
  display :: string

text \<open>A row of the cart table: the image, the name, the unit price, the quantity input
  and the remove control (both carry the line's id as \<^verbatim>\<open>data-id\<close>), and the line's subtotal.\<close>

record row =
  row_img :: string
  row_name :: string
  row_price :: content
  row_quantity :: jsnum
  row_subtotal :: content
  data_id :: string

text \<open>What the checkout summary holds: the notice of the empty cart, or one entry a line.\<close>

datatype node = Paragraph string | SummaryItem string jsnum content

record button =
  disabled :: bool
  btn_disabled :: bool

text \<open>The hidden field of the order: its first value, or the total and the lines written.\<close>

datatype order_text = Initial string | OrderTotal content "(string \<times> jsnum \<times> content) list"

text \<open>
  The state: the storage, and each element the script looks up, \<open>None\<close> when the page
  has no such element. \<open>container\<close> is the toast container with the messages appended to it.
  \<open>productIdToRemove\<close> has one entry for each run of \<^verbatim>\<open>initCartPage\<close> that reached the
  dialog: the variable of that run, which its listeners on the dialog's three controls
  share; the controls are never replaced, so the listeners of earlier runs stay on them.
  A page that has the dialog is taken to have its three controls. A cart line has the four
  fields of a product and a quantity, as the callers of \<^verbatim>\<open>addToCart\<close> build them.
\<close>

record state =
  localStorage :: "string \<rightharpoonup> stored"
  cartCountElements :: "badge list"
  container :: "string list option"
  cartItemsContainer :: "row list option"
  cartSubtotalElement :: "content option"
  cartTotalElement :: "content option"
  checkoutBtn :: "bool option"
  emptyCartMessage :: "string option"
  cartTotalContainer :: "string option"
  removeModal :: "bool option"
  productIdToRemove :: "string option list"
  summaryContainer :: "node list option"
  subtotalEl :: "content option"
  totalEl :: "content option"
  placeOrderBtn :: "button option"
  orderSummaryInput :: "order_text option"

text \<open>A call returns, or raises with the state as it is at that point.\<close>

datatype outcome = Done state | Threw error state

definition andThen :: "outcome \<Rightarrow> (state \<Rightarrow> outcome) \<Rightarrow> outcome" where
  "andThen r f = (case r of Done s \<Rightarrow> f s | Threw e s \<Rightarrow> Threw e s)"

fun stateOf :: "outcome \<Rightarrow> state" where
  "stateOf (Done s) = s"
| "stateOf (Threw e s) = s"

subsection \<open>Helper functions\<close>

definition getCart :: "state \<Rightarrow> error + jsvalue" where
  "getCart st =
     (case JSON_parse (localStorage st ''nassimStitchesCart'') of
        Inl e \<Rightarrow> Inl e
      | Inr v \<Rightarrow> Inr (if truthy v then v else Arr []))"

text \<open>\<^verbatim>\<open>cart.reduce((sum, item) => sum + item.quantity, 0)\<close>\<close>

definition totalItems :: "item list \<Rightarrow> jsnum" where
  "totalItems cart = foldl (\<lambda>sum item. plus_js sum (quantity item)) (Num 0) cart"

text \<open>What \<^verbatim>\<open>updateCartCount\<close> does to one badge.\<close>

definition showCount :: "jsnum \<Rightarrow> badge \<Rightarrow> badge" where
  "showCount n el =
     (if greater_js n (Num 0)
      then el\<lparr>textContent := OfNumber n, display := ''block''\<rparr>
      else el\<lparr>display := ''none''\<rparr>)"

definition updateCartCount :: "state \<Rightarrow> outcome" where
  "updateCartCount st =
     (case getCart st of
        Inl e \<Rightarrow> Threw e st
      | Inr v \<Rightarrow>
          (case asArray v of
             Inl e \<Rightarrow> Threw e st
           | Inr cart \<Rightarrow>
               Done (st\<lparr>cartCountElements :=
                        map (showCount (totalItems cart)) (cartCountElements st)\<rparr>)))"

definition saveCart :: "item list \<Rightarrow> state \<Rightarrow> outcome" where
  "saveCart cart st =
     updateCartCount
       (st\<lparr>localStorage := (localStorage st)(''nassimStitchesCart'' \<mapsto> JSON_stringify cart)\<rparr>)"

text \<open>The message is appended when the page has a toast container; the timers that fade
  it in and out are left out.\<close>

definition showToast :: "string \<Rightarrow> state \<Rightarrow> state" where
  "showToast message st =
     (case container st of
        None \<Rightarrow> st
      | Some toasts \<Rightarrow> st\<lparr>container := Some (toasts @ [message])\<rparr>)"

subsection \<open>Core cart functions\<close>

text \<open>
  \<^verbatim>\<open>existingItem.quantity++\<close> and \<^verbatim>\<open>item.quantity = quantity\<close> change the object that
  \<^verbatim>\<open>find\<close> returned, the first element of the array that satisfies the test, in place.
\<close>

fun update_first :: "('a \<Rightarrow> bool) \<Rightarrow> ('a \<Rightarrow> 'a) \<Rightarrow> 'a list \<Rightarrow> 'a list" where
  "update_first P f [] = []"
| "update_first P f (x # xs) = (if P x then f x # xs else x # update_first P f xs)"

text \<open>\<^verbatim>\<open>{ ...product, quantity: 1 }\<close>\<close>

definition newItem :: "product \<Rightarrow> item" where
  "newItem product =
     \<lparr>id' = id' product, name = name product, price = price product, img = img product,
      quantity = Num 1\<rparr>"

definition addToCart :: "product \<Rightarrow> state \<Rightarrow> outcome" where
  "addToCart product st =
     (case getCart st of
        Inl e \<Rightarrow> Threw e st
      | Inr v \<Rightarrow>
          (case asArray v of
             Inl e \<Rightarrow> Threw e st
           | Inr cart \<Rightarrow>
               andThen
                 (saveCart
                    (case find (\<lambda>item. id' item = id' product) cart of
                       Some existingItem \<Rightarrow>
                         update_first (\<lambda>item. id' item = id' product)
                           (\<lambda>item. item\<lparr>quantity := increment (quantity item)\<rparr>) cart
                     | None \<Rightarrow> cart @ [newItem product])
                    st)
                 (\<lambda>s. Done (showToast (name product @ '' has been added to your cart!'') s))))"

definition clearCart :: "state \<Rightarrow> outcome" where
  "clearCart st =
     updateCartCount
       (st\<lparr>localStorage :=
             (localStorage st)(''nassimStitchesCart'' := None, ''orderDetails'' := None)\<rparr>)"

subsection \<open>The cart page and the checkout summary\<close>

text \<open>\<^verbatim>\<open>item.price * item.quantity\<close>, in both renderers.\<close>

definition itemTotal :: "item \<Rightarrow> jsnum" where
  "itemTotal item = times_js (Num (price item)) (quantity item)"

text \<open>The running \<^verbatim>\<open>subtotal\<close> of \<^verbatim>\<open>initCartPage\<close>.\<close>

definition cartSubtotal :: "item list \<Rightarrow> jsnum" where
  "cartSubtotal cart = foldl (\<lambda>subtotal item. plus_js subtotal (itemTotal item)) (Num 0) cart"

definition cartRow :: "item \<Rightarrow> row" where
  "cartRow item =
     \<lparr>row_img = img item, row_name = name item, row_price = Ksh (Num (price item)),
      row_quantity = quantity item, row_subtotal = Ksh (itemTotal item), data_id = id' item\<rparr>"

text \<open>
  \<^verbatim>\<open>cart.length === 0\<close> holds of the empty array only (a truthy value that is no array
  is taken to have no \<^verbatim>\<open>length\<close> of \<^verbatim>\<open>0\<close>); the rows are cleared before that test, and
  the empty-cart message and the totals block are switched before \<^verbatim>\<open>forEach\<close> is called.
  The listeners that a run adds to the new rows are part of \<open>step\<close> below; the run's own
  \<^verbatim>\<open>productIdToRemove\<close> starts as \<^verbatim>\<open>null\<close>.
\<close>

definition initCartPage :: "state \<Rightarrow> outcome" where
  "initCartPage st =
     (case cartItemsContainer st of
        None \<Rightarrow> Done st
      | Some _ \<Rightarrow>
          (case getCart st of
             Inl e \<Rightarrow> Threw e st
           | Inr cart \<Rightarrow>
               (if cart = Arr []
                then Done (st\<lparr>cartItemsContainer := Some [],
                              emptyCartMessage := map_option (\<lambda>_. ''block'') (emptyCartMessage st),
                              cartTotalContainer := map_option (\<lambda>_. ''none'') (cartTotalContainer st),
                              checkoutBtn := map_option (\<lambda>_. True) (checkoutBtn st)\<rparr>)
                else
                  (case asArray cart of
                     Inl e \<Rightarrow>
                       Threw e (st\<lparr>cartItemsContainer := Some [],
                                  emptyCartMessage := map_option (\<lambda>_. ''none'') (emptyCartMessage st),
                                  cartTotalContainer := map_option (\<lambda>_. ''block'') (cartTotalContainer st)\<rparr>)
                   | Inr items \<Rightarrow>
                       Done (st\<lparr>cartItemsContainer := Some (map cartRow items),
                                emptyCartMessage := map_option (\<lambda>_. ''none'') (emptyCartMessage st),
                                cartTotalContainer := map_option (\<lambda>_. ''block'') (cartTotalContainer st),
                                cartSubtotalElement :=
                                  map_option (\<lambda>_. Ksh (cartSubtotal items)) (cartSubtotalElement st),
                                cartTotalElement :=
                                  map_option (\<lambda>_. Ksh (cartSubtotal items)) (cartTotalElement st),
                                checkoutBtn := map_option (\<lambda>_. False) (checkoutBtn st),
                                productIdToRemove :=
                                  (case removeModal st of
                                     None \<Rightarrow> productIdToRemove st
                                   | Some _ \<Rightarrow> productIdToRemove st @ [None])\<rparr>)))))"

text \<open>The running \<^verbatim>\<open>subtotal\<close> of \<^verbatim>\<open>initCheckoutPage\<close>.\<close>

definition orderSubtotal :: "item list \<Rightarrow> jsnum" where
  "orderSubtotal cart = foldl (\<lambda>subtotal item. plus_js subtotal (itemTotal item)) (Num 0) cart"

definition initCheckoutPage :: "state \<Rightarrow> outcome" where
  "initCheckoutPage st =
     (case summaryContainer st of
        None \<Rightarrow> Done st
      | Some _ \<Rightarrow>
          (case getCart st of
             Inl e \<Rightarrow> Threw e st
           | Inr cart \<Rightarrow>
               (if cart = Arr []
                then Done (st\<lparr>summaryContainer :=
                                Some [Paragraph ''Your cart is empty. Please add items to your cart before checking out.''],
                              placeOrderBtn :=
                                map_option (\<lambda>b. b\<lparr>disabled := True, btn_disabled := True\<rparr>) (placeOrderBtn st),
                              subtotalEl := map_option (\<lambda>_. Str ''Ksh 0'') (subtotalEl st),
                              totalEl := map_option (\<lambda>_. Str ''Ksh 0'') (totalEl st)\<rparr>)
                else
                  (case asArray cart of
                     Inl e \<Rightarrow> Threw e (st\<lparr>summaryContainer := Some []\<rparr>)
                   | Inr items \<Rightarrow>
                       Done (st\<lparr>summaryContainer :=
                                  Some (map (\<lambda>item. SummaryItem (name item) (quantity item)
                                                       (Ksh (itemTotal item))) items),
                                subtotalEl := map_option (\<lambda>_. Ksh (orderSubtotal items)) (subtotalEl st),
                                totalEl := map_option (\<lambda>_. Ksh (orderSubtotal items)) (totalEl st),
                                orderSummaryInput :=
                                  map_option
                                    (\<lambda>_. OrderTotal (Ksh (orderSubtotal items))
                                           (map (\<lambda>item. (name item, quantity item, Ksh (itemTotal item)))
                                                items))
                                    (orderSummaryInput st),
                                placeOrderBtn :=
                                  map_option (\<lambda>b. b\<lparr>disabled := False, btn_disabled := False\<rparr>)
                                    (placeOrderBtn st)\<rparr>)))))"

subsection \<open>Changing and removing lines\<close>

definition updateQuantity :: "string \<Rightarrow> jsnum \<Rightarrow> state \<Rightarrow> outcome" where
  "updateQuantity productId quantity' st =
     (case getCart st of
        Inl e \<Rightarrow> Threw e st
      | Inr v \<Rightarrow>
          (case asArray v of
             Inl e \<Rightarrow> Threw e st
           | Inr cart \<Rightarrow>
               andThen
                 (saveCart
                    (if less_js quantity' (Num 1)
                     then filter (\<lambda>item. id' item \<noteq> productId) cart
                     else (case find (\<lambda>item. id' item = productId) cart of
                             Some item \<Rightarrow>
                               update_first (\<lambda>item. id' item = productId)
                                 (\<lambda>item. item\<lparr>quantity := quantity'\<rparr>) cart
                           | None \<Rightarrow> cart))
                    st)
                 initCartPage))"

definition removeItemFromCart :: "string \<Rightarrow> state \<Rightarrow> outcome" where
  "removeItemFromCart productId st =
     (case getCart st of
        Inl e \<Rightarrow> Threw e st
      | Inr v \<Rightarrow>
          (case asArray v of
             Inl e \<Rightarrow> Threw e st
           | Inr cart \<Rightarrow>
               andThen
                 (andThen (saveCart (filter (\<lambda>item. id' item \<noteq> productId) cart) st) initCartPage)
                 (\<lambda>s. Done (showToast ''Item removed from cart.'' s))))"

subsection \<open>The listeners\<close>

text \<open>
  \<^verbatim>\<open>openRemoveModal\<close> and \<^verbatim>\<open>closeRemoveModal\<close> of the run of \<^verbatim>\<open>initCartPage\<close> whose
  variable is entry \<open>k\<close> of \<open>productIdToRemove\<close>.
\<close>

definition openRemoveModal :: "nat \<Rightarrow> string \<Rightarrow> state \<Rightarrow> state" where
  "openRemoveModal k productId st =
     st\<lparr>productIdToRemove := (productIdToRemove st)[k := Some productId],
        removeModal := map_option (\<lambda>_. True) (removeModal st)\<rparr>"

definition closeRemoveModal :: "nat \<Rightarrow> state \<Rightarrow> state" where
  "closeRemoveModal k st =
     st\<lparr>productIdToRemove := (productIdToRemove st)[k := None],
        removeModal := map_option (\<lambda>_. False) (removeModal st)\<rparr>"

text \<open>
  The click listener that run \<open>k\<close> put on the confirm button. \<^verbatim>\<open>if (productIdToRemove)\<close>
  is false for \<^verbatim>\<open>null\<close> and for the empty string. An exception ends this listener only.
  (\<open>step\<close> calls it with indices of the list only.)
\<close>

definition confirmRemove :: "nat \<Rightarrow> state \<Rightarrow> state" where
  "confirmRemove k st =
     (case productIdToRemove st ! k of
        Some productId \<Rightarrow>
          (if productId \<noteq> []
           then (case removeItemFromCart productId st of
                   Done s \<Rightarrow> closeRemoveModal k s
                 | Threw e s \<Rightarrow> s)
           else closeRemoveModal k st)
      | None \<Rightarrow> closeRemoveModal k st)"

text \<open>
  What the user does on the cart page. A quantity input and a remove control exist for the
  rows of the table; the remove controls of the rows carry the listener of the latest run
  that reached the dialog. A click on a control of the dialog calls the listeners of every
  run so far, in the order they were added (listeners added during the click are not called).
\<close>

datatype event =
  ChangeQuantity string string
| ClickRemove string
| ClickConfirm
| ClickCancel
| ClickClose

definition hasRow :: "string \<Rightarrow> state \<Rightarrow> bool" where
  "hasRow productId st =
     (case cartItemsContainer st of
        None \<Rightarrow> False
      | Some rows \<Rightarrow> productId \<in> set (map data_id rows))"

fun step :: "event \<Rightarrow> state \<Rightarrow> state" where
  "step (ChangeQuantity productId v) st =
     (if hasRow productId st then stateOf (updateQuantity productId (parseInt v) st) else st)"
| "step (ClickRemove productId) st =
     (if hasRow productId st \<and> productIdToRemove st \<noteq> []
      then openRemoveModal (length (productIdToRemove st) - 1) productId st
      else st)"
| "step ClickConfirm st = foldl (\<lambda>s k. confirmRemove k s) st [0..<length (productIdToRemove st)]"
| "step ClickCancel st = foldl (\<lambda>s k. closeRemoveModal k s) st [0..<length (productIdToRemove st)]"
| "step ClickClose st = foldl (\<lambda>s k. closeRemoveModal k s) st [0..<length (productIdToRemove st)]"

definition run :: "event list \<Rightarrow> state \<Rightarrow> state" where
  "run es st = foldl (\<lambda>s e. step e s) st es"

text \<open>The initialisations at the end of the \<^verbatim>\<open>DOMContentLoaded\<close> handler.\<close>

definition DOMContentLoaded :: "state \<Rightarrow> outcome" where
  "DOMContentLoaded st = andThen (andThen (updateCartCount st) initCartPage) initCheckoutPage"

text \<open>\<open>n\<close> calls of the same function in a row; an exception ends the sequence.\<close>

fun calls :: "nat \<Rightarrow> (state \<Rightarrow> outcome) \<Rightarrow> state \<Rightarrow> outcome" where
  "calls 0 f st = Done st"
| "calls (Suc n) f st = andThen (f st) (calls n f)"

subsection \<open>The projections\<close>



subsection \<open>The sums of the specification\<close>




subsection \<open>Example pages\<close>

text \<open>A page with every element the script looks up, one badge, and an empty storage.\<close>

definition page0 :: state where
  "page0 =
     \<lparr>localStorage = Map.empty,
      cartCountElements = [\<lparr>textContent = Str ''0'', display = ''none''\<rparr>],
      container = Some [],
      cartItemsContainer = Some [],
      cartSubtotalElement = Some (Str ''Ksh 0''),
      cartTotalElement = Some (Str ''Ksh 0''),
      checkoutBtn = Some False,
      emptyCartMessage = Some ''none'',
      cartTotalContainer = Some ''block'',
      removeModal = Some False,
      productIdToRemove = [],
      summaryContainer = Some [],
      subtotalEl = Some (Str ''Ksh 0''),
      totalEl = Some (Str ''Ksh 0''),
      placeOrderBtn = Some \<lparr>disabled = False, btn_disabled = False\<rparr>,
      orderSummaryInput = Some (Initial [])\<rparr>"

definition shirt :: product where
  "shirt = \<lparr>id' = ''p1'', name = ''Shirt'', price = 1500, img = ''x''\<rparr>"

definition scarf :: product where
  "scarf = \<lparr>id' = ''p2'', name = ''Scarf'', price = 800, img = ''y''\<rparr>"

definition hat :: product where
  "hat = \<lparr>id' = ''p3'', name = ''Hat'', price = 500, img = ''z''\<rparr>"

text \<open>The same page with one line stored, the shirt twice.\<close>

definition page1 :: state where
  "page1 =
     page0\<lparr>localStorage :=
             [''nassimStitchesCart'' \<mapsto>
                JsonArray [\<lparr>id' = ''p1'', name = ''Shirt'', price = 1500, img = ''x'',
                            quantity = Some 2\<rparr>]]\<rparr>"

text \<open>That page once loaded, and after the shirt's remove control and the confirm button
  of the dialog have been clicked.\<close>

definition rendered1 :: state where
  "rendered1 = stateOf (DOMContentLoaded page1)"




text \<open>A page with three lines stored, once loaded.\<close>

definition page3 :: state where
  "page3 =
     page0\<lparr>localStorage :=
             [''nassimStitchesCart'' \<mapsto>
                JsonArray [\<lparr>id' = ''p1'', name = ''Shirt'', price = 1500, img = ''x'', quantity = Some 1\<rparr>,
                           \<lparr>id' = ''p2'', name = ''Scarf'', price = 800, img = ''y'', quantity = Some 1\<rparr>,
                           \<lparr>id' = ''p3'', name = ''Hat'', price = 500, img = ''z'', quantity = Some 1\<rparr>]]\<rparr>"

definition rendered3 :: state where
  "rendered3 = stateOf (DOMContentLoaded page3)"

text \<open>The first page with one line stored, the shirt with the quantity \<^verbatim>\<open>2^53\<close>.\<close>

definition pageBig :: state where
  "pageBig =
     page0\<lparr>localStorage :=
             [''nassimStitchesCart'' \<mapsto>
                JsonArray [\<lparr>id' = ''p1'', name = ''Shirt'', price = 1500, img = ''x'',
                            quantity = Some 9007199254740992\<rparr>]]\<rparr>"

section \<open>Properties\<close>

subsection \<open>Storage and the helper functions\<close>

lemma stringify_parse_number: "stringify_number (parse_number q) = q"
  by (cases q) simp_all

lemma parse_stringify_number: "v \<noteq> NaN \<Longrightarrow> parse_number (stringify_number v) = v"
  by (cases v) simp_all

lemma stringify_parse_item: "stringify_item (parse_item j) = j"
  by (simp add: stringify_item_def parse_item_def stringify_parse_number)

lemma parse_stringify_item: "quantity l \<noteq> NaN \<Longrightarrow> parse_item (stringify_item l) = l"
  by (simp add: stringify_item_def parse_item_def parse_stringify_number)

lemma parse_number_not_NaN: "parse_number q \<noteq> NaN"
  by (cases q) simp_all

lemma quantity_parse_item: "quantity (parse_item j) \<noteq> NaN"
  by (simp add: parse_item_def parse_number_not_NaN)

lemma getCart_Arr_parsed:
  assumes "getCart st = Inr (Arr cart)"
  shows "\<exists>ls. cart = map parse_item ls"
proof (cases "localStorage st ''nassimStitchesCart''")
  case None
  with assms have "cart = []" by (simp add: getCart_def)
  then show ?thesis by simp
next
  case (Some t)
  show ?thesis
  proof (cases t)
    case Unparseable
    with Some assms show ?thesis by (simp add: getCart_def)
  next
    case (JsonNotArray b)
    with Some assms have "cart = []" by (simp add: getCart_def split: if_splits)
    then show ?thesis by simp
  next
    case (JsonArray ls)
    with Some assms have "cart = map parse_item ls" by (simp add: getCart_def)
    then show ?thesis by blast
  qed
qed

lemma getCart_no_NaN:
  assumes "getCart st = Inr (Arr cart)" and "l \<in> set cart"
  shows "quantity l \<noteq> NaN"
  using getCart_Arr_parsed [OF assms(1)] assms(2) by (auto simp: quantity_parse_item)

lemma reload_id:
  assumes "\<And>l. l \<in> set cart \<Longrightarrow> quantity l \<noteq> NaN"
  shows "map (\<lambda>l. parse_item (stringify_item l)) cart = cart"
  using assms by (induction cart) (simp_all add: parse_stringify_item)

lemma getCart_stored:
  "localStorage st ''nassimStitchesCart'' = Some (JSON_stringify cart) \<Longrightarrow>
   getCart st = Inr (Arr (map (\<lambda>l. parse_item (stringify_item l)) cart))"
  by (simp add: getCart_def JSON_stringify_def comp_def)


lemma updateCartCount_Arr:
  "getCart st = Inr (Arr cart) \<Longrightarrow>
   updateCartCount st =
     Done (st\<lparr>cartCountElements := map (showCount (totalItems cart)) (cartCountElements st)\<rparr>)"
  by (simp add: updateCartCount_def)

lemma saveCart_Done:
  "saveCart cart st =
     Done (st\<lparr>localStorage := (localStorage st)(''nassimStitchesCart'' \<mapsto> JSON_stringify cart),
              cartCountElements :=
                map (showCount (totalItems (map (\<lambda>l. parse_item (stringify_item l)) cart)))
                    (cartCountElements st)\<rparr>)"
proof -
  let ?s = "st\<lparr>localStorage := (localStorage st)(''nassimStitchesCart'' \<mapsto> JSON_stringify cart)\<rparr>"
  have "getCart ?s = Inr (Arr (map (\<lambda>l. parse_item (stringify_item l)) cart))"
    by (rule getCart_stored) simp
  from updateCartCount_Arr [OF this] show ?thesis by (simp add: saveCart_def)
qed

lemma initCartPage_Arr:
  assumes "getCart st = Inr (Arr cart)"
  shows "\<exists>s. initCartPage st = Done s \<and> localStorage s = localStorage st
            \<and> cartCountElements s = cartCountElements st \<and> container s = container st"
  using assms by (cases "cartItemsContainer st") (simp_all add: initCartPage_def)

lemma showToast_frame:
  "localStorage (showToast m s) = localStorage s"
  "cartCountElements (showToast m s) = cartCountElements s"
  by (simp_all add: showToast_def split: option.splits)

subsection \<open>Lists\<close>

lemma update_first_split:
  assumes "\<exists>x\<in>set xs. P x"
  shows "\<exists>pre l post. xs = pre @ l # post \<and> P l \<and> (\<forall>x\<in>set pre. \<not> P x)
            \<and> update_first P f xs = pre @ f l # post"
  using assms
proof (induction xs)
  case Nil
  then show ?case by simp
next
  case (Cons a xs)
  show ?case
  proof (cases "P a")
    case True
    then have "a # xs = [] @ a # xs \<and> P a \<and> (\<forall>x\<in>set []. \<not> P x)
                 \<and> update_first P f (a # xs) = [] @ f a # xs"
      by simp
    then show ?thesis by blast
  next
    case False
    with Cons.prems have "\<exists>x\<in>set xs. P x" by auto
    from Cons.IH [OF this] obtain pre l post where
      h: "xs = pre @ l # post" "P l" "\<forall>x\<in>set pre. \<not> P x"
         "update_first P f xs = pre @ f l # post"
      by blast
    with False have "a # xs = (a # pre) @ l # post \<and> P l \<and> (\<forall>x\<in>set (a # pre). \<not> P x)
                 \<and> update_first P f (a # xs) = (a # pre) @ f l # post"
      by simp
    then show ?thesis by blast
  qed
qed

lemma find_None_iff_ids: "(find (\<lambda>item. id' item = i) cart = None) = (i \<notin> id' ` set cart)"
  by (auto simp: find_None_iff)

lemma map_id_update_first:
  "(\<And>x. g (f x) = g x) \<Longrightarrow> map g (update_first P f xs) = map g xs"
  by (induction xs) simp_all

lemma set_update_first_quantity:
  "l \<in> set (update_first P (\<lambda>item. item\<lparr>quantity := q\<rparr>) xs) \<Longrightarrow>
   quantity l = q \<or> l \<in> set xs"
  by (induction xs) (auto split: if_splits)

subsection \<open>The four operations on a stored array\<close>

text \<open>Each operation returns, and the storage then holds the cart it computed.\<close>

lemma addToCart_Done:
  assumes "getCart st = Inr (Arr cart)"
  shows "\<exists>st'. addToCart product st = Done st' \<and>
           localStorage st' = (localStorage st)(''nassimStitchesCart'' \<mapsto> JSON_stringify
             (case find (\<lambda>item. id' item = id' product) cart of
                Some existingItem \<Rightarrow>
                  update_first (\<lambda>item. id' item = id' product)
                    (\<lambda>item. item\<lparr>quantity := increment (quantity item)\<rparr>) cart
              | None \<Rightarrow> cart @ [newItem product]))"
  using assms by (simp add: addToCart_def saveCart_Done andThen_def showToast_frame)

lemma updateQuantity_Done:
  assumes "getCart st = Inr (Arr cart)"
  shows "\<exists>st'. updateQuantity productId q st = Done st' \<and>
           localStorage st' = (localStorage st)(''nassimStitchesCart'' \<mapsto> JSON_stringify
             (if less_js q (Num 1)
              then filter (\<lambda>item. id' item \<noteq> productId) cart
              else (case find (\<lambda>item. id' item = productId) cart of
                      Some item \<Rightarrow>
                        update_first (\<lambda>item. id' item = productId)
                          (\<lambda>item. item\<lparr>quantity := q\<rparr>) cart
                    | None \<Rightarrow> cart)))"
proof -
  let ?c = "if less_js q (Num 1)
              then filter (\<lambda>item. id' item \<noteq> productId) cart
              else (case find (\<lambda>item. id' item = productId) cart of
                      Some item \<Rightarrow>
                        update_first (\<lambda>item. id' item = productId)
                          (\<lambda>item. item\<lparr>quantity := q\<rparr>) cart
                    | None \<Rightarrow> cart)"
  obtain s where s: "saveCart ?c st = Done s"
    "localStorage s = (localStorage st)(''nassimStitchesCart'' \<mapsto> JSON_stringify ?c)"
    by (simp add: saveCart_Done)
  have "getCart s = Inr (Arr (map (\<lambda>l. parse_item (stringify_item l)) ?c))"
    by (rule getCart_stored) (simp add: s(2))
  from initCartPage_Arr [OF this] obtain s' where
    "initCartPage s = Done s'" "localStorage s' = localStorage s" by blast
  with s assms show ?thesis by (simp add: updateQuantity_def andThen_def)
qed

lemma removeItemFromCart_Done:
  assumes "getCart st = Inr (Arr cart)"
  shows "\<exists>st'. removeItemFromCart productId st = Done st' \<and>
           localStorage st' = (localStorage st)(''nassimStitchesCart'' \<mapsto> JSON_stringify
             (filter (\<lambda>item. id' item \<noteq> productId) cart))"
proof -
  let ?c = "filter (\<lambda>item. id' item \<noteq> productId) cart"
  obtain s where s: "saveCart ?c st = Done s"
    "localStorage s = (localStorage st)(''nassimStitchesCart'' \<mapsto> JSON_stringify ?c)"
    by (simp add: saveCart_Done)
  have "getCart s = Inr (Arr (map (\<lambda>l. parse_item (stringify_item l)) ?c))"
    by (rule getCart_stored) (simp add: s(2))
  from initCartPage_Arr [OF this] obtain s' where
    "initCartPage s = Done s'" "localStorage s' = localStorage s" by blast
  with s assms show ?thesis by (simp add: removeItemFromCart_def andThen_def showToast_frame)
qed

lemma clearCart_Done:
  "clearCart st =
     Done (st\<lparr>localStorage := (localStorage st)(''nassimStitchesCart'' := None, ''orderDetails'' := None),
              cartCountElements := map (showCount (Num 0)) (cartCountElements st)\<rparr>)"
proof -
  let ?s = "st\<lparr>localStorage := (localStorage st)(''nassimStitchesCart'' := None, ''orderDetails'' := None)\<rparr>"
  have "getCart ?s = Inr (Arr [])" by (simp add: getCart_def)
  from updateCartCount_Arr [OF this] show ?thesis by (simp add: clearCart_def totalItems_def)
qed

subsection \<open>The badge\<close>

lemma showCount_idem: "showCount n (showCount n el) = showCount n el"
  by (simp add: showCount_def)

lemma showCount_zero: "showCount (Num 0) el = el\<lparr>display := ''none''\<rparr>"
  by (simp add: showCount_def greater_js_def)

lemma updateCartCount_idem:
  assumes "getCart st = Inr (Arr cart)"
  shows "updateCartCount (st\<lparr>cartCountElements := map (showCount (totalItems cart)) (cartCountElements st)\<rparr>)
       = Done (st\<lparr>cartCountElements := map (showCount (totalItems cart)) (cartCountElements st)\<rparr>)"
proof -
  let ?s = "st\<lparr>cartCountElements := map (showCount (totalItems cart)) (cartCountElements st)\<rparr>"
  have "getCart ?s = Inr (Arr cart)" using assms by (simp add: getCart_def)
  from updateCartCount_Arr [OF this] show ?thesis by (simp add: showCount_idem)
qed

subsection \<open>Clearing the cart\<close>

text \<open>
  C8: \<^verbatim>\<open>clearCart()\<close> always returns; afterwards the storage has neither the cart key nor
  the order-details key (the keys are deleted, no empty array is written, and no other key is
  touched), \<^verbatim>\<open>getCart\<close> yields the empty array, and the badge has been recomputed: every
  badge is hidden, and one more \<^verbatim>\<open>updateCartCount\<close> changes nothing.
\<close>

theorem clearCart_deletes_keys:
  "\<exists>st'. clearCart st = Done st'
      \<and> localStorage st' ''nassimStitchesCart'' = None
      \<and> localStorage st' ''orderDetails'' = None
      \<and> (\<forall>k. k \<noteq> ''nassimStitchesCart'' \<and> k \<noteq> ''orderDetails'' \<longrightarrow> localStorage st' k = localStorage st k)
      \<and> getCart st' = Inr (Arr [])
      \<and> cartCountElements st' = map (\<lambda>el. el\<lparr>display := ''none''\<rparr>) (cartCountElements st)
      \<and> updateCartCount st' = Done st'"
proof -
  let ?t = "st\<lparr>localStorage := (localStorage st)(''nassimStitchesCart'' := None, ''orderDetails'' := None)\<rparr>"
  let ?s = "?t\<lparr>cartCountElements := map (showCount (totalItems [])) (cartCountElements ?t)\<rparr>"
  have g: "getCart ?t = Inr (Arr [])" by (simp add: getCart_def)
  have c: "clearCart st = Done ?s"
    by (simp add: clearCart_Done totalItems_def)
  have i: "updateCartCount ?s = Done ?s" by (rule updateCartCount_idem [OF g])
  have g': "getCart ?s = Inr (Arr [])" by (simp add: getCart_def)
  have b: "cartCountElements ?s = map (\<lambda>el. el\<lparr>display := ''none''\<rparr>) (cartCountElements st)"
    by (simp add: totalItems_def showCount_zero)
  have "clearCart st = Done ?s
      \<and> localStorage ?s ''nassimStitchesCart'' = None
      \<and> localStorage ?s ''orderDetails'' = None
      \<and> (\<forall>k. k \<noteq> ''nassimStitchesCart'' \<and> k \<noteq> ''orderDetails'' \<longrightarrow> localStorage ?s k = localStorage st k)
      \<and> getCart ?s = Inr (Arr [])
      \<and> cartCountElements ?s = map (\<lambda>el. el\<lparr>display := ''none''\<rparr>) (cartCountElements st)
      \<and> updateCartCount ?s = Done ?s"
    using c i g' b by simp
  then show ?thesis by (rule exI)
qed

theorem clearCart_deletes_keys_witness:
  "\<exists>st'. clearCart (page0\<lparr>localStorage := [''nassimStitchesCart'' \<mapsto> Unparseable, ''orderDetails'' \<mapsto> Unparseable, ''theme'' \<mapsto> JsonNotArray True]\<rparr>) = Done st'
     \<and> localStorage st' ''nassimStitchesCart'' = None
     \<and> localStorage st' ''orderDetails'' = None
     \<and> localStorage st' ''theme'' = Some (JsonNotArray True)
     \<and> getCart st' = Inr (Arr [])"
proof -
  let ?p = "page0\<lparr>localStorage := [''nassimStitchesCart'' \<mapsto> Unparseable, ''orderDetails'' \<mapsto> Unparseable, ''theme'' \<mapsto> JsonNotArray True]\<rparr>"
  from clearCart_deletes_keys [of ?p] obtain st' where
    h: "clearCart ?p = Done st'" "localStorage st' ''nassimStitchesCart'' = None"
       "localStorage st' ''orderDetails'' = None"
       "\<forall>k. k \<noteq> ''nassimStitchesCart'' \<and> k \<noteq> ''orderDetails'' \<longrightarrow> localStorage st' k = localStorage ?p k"
       "getCart st' = Inr (Arr [])"
    by blast
  from h(4) have "localStorage st' ''theme'' = localStorage ?p ''theme''" by simp
  then have "localStorage st' ''theme'' = Some (JsonNotArray True)" by simp
  with h show ?thesis by blast
qed

subsection \<open>Adding a product\<close>

lemma ToNumber_cases: "v \<noteq> NaN \<Longrightarrow> \<exists>n. ToNumber v = Num n"
  by (cases v) simp_all

lemma toDouble_exact:
  assumes "\<bar>x\<bar> \<le> 2 ^ 53"
  shows "toDouble x = x"
proof (cases "\<bar>x\<bar> < 2 ^ 53")
  case True
  then show ?thesis by (simp add: toDouble_def)
next
  case False
  with assms have "x = 9007199254740992 \<or> x = - 9007199254740992" by auto
  moreover have "toDouble 9007199254740992 = 9007199254740992" by code_simp
  moreover have "toDouble (- 9007199254740992) = - 9007199254740992" by code_simp
  ultimately show ?thesis by auto
qed

lemma increment_Num: "ToNumber v = Num n \<Longrightarrow> increment v = Num (toDouble (n + 1))"
  by (simp add: increment_def)

lemma getCart_after:
  assumes "localStorage st' = (localStorage st)(''nassimStitchesCart'' \<mapsto> JSON_stringify cart)"
    and "\<And>l. l \<in> set cart \<Longrightarrow> quantity l \<noteq> NaN"
  shows "getCart st' = Inr (Arr cart)"
proof -
  have "getCart st' = Inr (Arr (map (\<lambda>l. parse_item (stringify_item l)) cart))"
    by (rule getCart_stored) (simp add: assms(1))
  with reload_id [of cart, OF assms(2)] show ?thesis by simp
qed

lemma addToCart_absent:
  assumes g: "getCart st = Inr (Arr cart)" and a: "id' product \<notin> id' ` set cart"
  shows "\<exists>st'. addToCart product st = Done st' \<and> getCart st' = Inr (Arr (cart @ [newItem product]))"
proof -
  from a have f: "find (\<lambda>item. id' item = id' product) cart = None"
    by (simp add: find_None_iff_ids)
  from addToCart_Done [OF g, of product] f obtain st' where
    d: "addToCart product st = Done st'"
    and l: "localStorage st' = (localStorage st)(''nassimStitchesCart'' \<mapsto> JSON_stringify (cart @ [newItem product]))"
    by auto
  have "getCart st' = Inr (Arr (cart @ [newItem product]))"
  proof (rule getCart_after [OF l])
    fix l assume "l \<in> set (cart @ [newItem product])"
    then show "quantity l \<noteq> NaN"
      using getCart_no_NaN [OF g] by (auto simp: newItem_def)
  qed
  with d show ?thesis by blast
qed

lemma addToCart_present:
  assumes g: "getCart st = Inr (Arr cart)" and a: "id' product \<in> id' ` set cart"
  shows "\<exists>st' pre l post n. addToCart product st = Done st'
           \<and> cart = pre @ l # post \<and> id' l = id' product \<and> id' product \<notin> id' ` set pre
           \<and> ToNumber (quantity l) = Num n
           \<and> getCart st' = Inr (Arr (pre @ l\<lparr>quantity := Num (toDouble (n + 1))\<rparr> # post))"
proof -
  let ?P = "\<lambda>item. id' item = id' product"
  let ?f = "\<lambda>item::item. item\<lparr>quantity := increment (quantity item)\<rparr>"
  from a have ex: "\<exists>x\<in>set cart. ?P x" by auto
  from a have "find ?P cart \<noteq> None" by (simp add: find_None_iff_ids)
  then obtain x where f: "find ?P cart = Some x" by blast
  from update_first_split [OF ex, of ?f] obtain pre l post where
    s: "cart = pre @ l # post" "id' l = id' product" "\<forall>x\<in>set pre. id' x \<noteq> id' product"
       "update_first ?P ?f cart = pre @ ?f l # post"
    by blast
  from s(1) have "l \<in> set cart" by simp
  with getCart_no_NaN [OF g] have "quantity l \<noteq> NaN" by blast
  from ToNumber_cases [OF this] obtain n where n: "ToNumber (quantity l) = Num n" by blast
  then have i: "?f l = l\<lparr>quantity := Num (toDouble (n + 1))\<rparr>" by (simp add: increment_Num)
  from addToCart_Done [OF g, of product] f s(4) i obtain st' where
    d: "addToCart product st = Done st'"
    and l: "localStorage st' = (localStorage st)(''nassimStitchesCart'' \<mapsto>
              JSON_stringify (pre @ l\<lparr>quantity := Num (toDouble (n + 1))\<rparr> # post))"
    by auto
  have "getCart st' = Inr (Arr (pre @ l\<lparr>quantity := Num (toDouble (n + 1))\<rparr> # post))"
  proof (rule getCart_after [OF l])
    fix x assume "x \<in> set (pre @ l\<lparr>quantity := Num (toDouble (n + 1))\<rparr> # post)"
    then have "x \<in> set cart \<or> quantity x = Num (toDouble (n + 1))" using s(1) by auto
    then show "quantity x \<noteq> NaN" using getCart_no_NaN [OF g] by auto
  qed
  moreover from s(3) have "id' product \<notin> id' ` set pre" by auto
  ultimately show ?thesis using d s(1,2) n by blast
qed

lemma addToCart_last:
  assumes g: "getCart st = Inr (Arr (cart @ [l]))" and i: "id' l = id' product"
    and a: "id' product \<notin> id' ` set cart" and q: "quantity l = Num k"
  shows "\<exists>st'. addToCart product st = Done st'
           \<and> getCart st' = Inr (Arr (cart @ [l\<lparr>quantity := Num (toDouble (k + 1))\<rparr>]))"
proof -
  from i have "id' product \<in> id' ` set (cart @ [l])" by force
  from addToCart_present [OF g this] obtain st' pre x post n where
    h: "addToCart product st = Done st'" "cart @ [l] = pre @ x # post" "id' x = id' product"
       "id' product \<notin> id' ` set pre" "ToNumber (quantity x) = Num n"
       "getCart st' = Inr (Arr (pre @ x\<lparr>quantity := Num (toDouble (n + 1))\<rparr> # post))"
    by blast
  have "post = []"
  proof (rule ccontr)
    assume "post \<noteq> []"
    then obtain post' z where "post = post' @ [z]" by (metis rev_exhaust)
    with h(2) have "cart = pre @ x # post'" by simp
    with h(3) a show False by force
  qed
  with h(2) have e: "pre = cart" "x = l" by simp_all
  with h(5) q have "n = k" by simp
  with h(1,6) e \<open>post = []\<close> show ?thesis by simp
qed

lemma calls_addToCart:
  assumes a: "id' product \<notin> id' ` set cart"
  shows "getCart st = Inr (Arr (cart @ [(newItem product)\<lparr>quantity := Num k\<rparr>])) \<Longrightarrow>
         0 \<le> k \<Longrightarrow> k + int n \<le> 2 ^ 53 \<Longrightarrow>
         \<exists>st'. calls n (addToCart product) st = Done st'
           \<and> getCart st' = Inr (Arr (cart @ [(newItem product)\<lparr>quantity := Num (k + int n)\<rparr>]))"
proof (induction n arbitrary: st k)
  case 0
  then show ?case by simp
next
  case (Suc n)
  have "id' ((newItem product)\<lparr>quantity := Num k\<rparr>) = id' product" by (simp add: newItem_def)
  from addToCart_last [OF Suc.prems(1) this a] obtain s where
    s: "addToCart product st = Done s"
       "getCart s = Inr (Arr (cart @ [(newItem product)\<lparr>quantity := Num (toDouble (k + 1))\<rparr>]))"
    by auto
  from Suc.prems(2,3) have "\<bar>k + 1\<bar> \<le> 2 ^ 53" by simp
  then have "toDouble (k + 1) = k + 1" by (rule toDouble_exact)
  with s(2) have g: "getCart s = Inr (Arr (cart @ [(newItem product)\<lparr>quantity := Num (k + 1)\<rparr>]))"
    by simp
  from Suc.prems(2,3) have b: "0 \<le> k + 1" "k + 1 + int n \<le> 2 ^ 53" by simp_all
  from Suc.IH [OF g b] obtain st' where
    "calls n (addToCart product) s = Done st'"
    "getCart st' = Inr (Arr (cart @ [(newItem product)\<lparr>quantity := Num (k + 1 + int n)\<rparr>]))"
    by blast
  with s(1) show ?case by (simp add: andThen_def add.assoc add.commute)
qed

lemma calls_addToCart_fresh:
  assumes g: "getCart st = Inr (Arr cart)" and a: "id' product \<notin> id' ` set cart" and n: "0 < n"
    and b: "int n \<le> 2 ^ 53"
  shows "\<exists>st'. calls n (addToCart product) st = Done st'
           \<and> getCart st' = Inr (Arr (cart @ [(newItem product)\<lparr>quantity := Num (int n)\<rparr>]))"
proof -
  from n obtain m where m: "n = Suc m" by (cases n) simp_all
  from addToCart_absent [OF g a] obtain s where
    s: "addToCart product st = Done s" "getCart s = Inr (Arr (cart @ [newItem product]))" by blast
  have "newItem product = (newItem product)\<lparr>quantity := Num 1\<rparr>" by (simp add: newItem_def)
  with s(2) have g1: "getCart s = Inr (Arr (cart @ [(newItem product)\<lparr>quantity := Num 1\<rparr>]))" by simp
  from b m have b1: "1 + int m \<le> 2 ^ 53" by simp
  have "(0::int) \<le> 1" by simp
  from calls_addToCart [OF a g1 this b1] obtain st' where
    "calls m (addToCart product) s = Done st'"
    "getCart st' = Inr (Arr (cart @ [(newItem product)\<lparr>quantity := Num (1 + int m)\<rparr>]))"
    by blast
  with s(1) m show ?thesis by (simp add: andThen_def add.commute)
qed

text \<open>
  C2, as the script has it: on a stored cart, \<^verbatim>\<open>addToCart(product)\<close> returns, and the
  cart then stored is: when a line has the product's id, the old cart with the quantity of
  the first such line replaced by the double nearest to that quantity plus 1 (a
  \<^verbatim>\<open>null\<close> quantity counting as 0), which is that quantity plus exactly 1 as long as
  the result is at most \<^verbatim>\<open>2^53\<close> in absolute value, and everything else as it was;
  otherwise the old cart with one new line at the end, the product's fields with quantity 1.
  Hence \<open>N > 0\<close> calls, \<open>N\<close> at most \<^verbatim>\<open>2^53\<close>, for a product whose id the cart did
  not have leave exactly one line for it, with quantity \<open>N\<close>.
\<close>

theorem addToCart_increments_or_appends:
  assumes "getCart st = Inr (Arr cart)"
  shows "(\<exists>st'. addToCart product st = Done st' \<and>
            (if id' product \<in> id' ` set cart
             then \<exists>pre l post n. cart = pre @ l # post \<and> id' l = id' product
                    \<and> id' product \<notin> id' ` set pre \<and> ToNumber (quantity l) = Num n
                    \<and> getCart st' = Inr (Arr (pre @ l\<lparr>quantity := Num (toDouble (n + 1))\<rparr> # post))
                    \<and> (\<bar>n + 1\<bar> \<le> 2 ^ 53 \<longrightarrow>
                          getCart st' = Inr (Arr (pre @ l\<lparr>quantity := Num (n + 1)\<rparr> # post)))
             else getCart st' =
                    Inr (Arr (cart @ [\<lparr>id' = id' product, name = name product, price = price product,
                                       img = img product, quantity = Num 1\<rparr>]))))
       \<and> (id' product \<notin> id' ` set cart \<longrightarrow>
            (\<forall>N>0. int N \<le> 2 ^ 53 \<longrightarrow>
               (\<exists>st'. calls N (addToCart product) st = Done st' \<and>
                  getCart st' =
                    Inr (Arr (cart @ [\<lparr>id' = id' product, name = name product, price = price product,
                                       img = img product, quantity = Num (int N)\<rparr>])))))"
proof (cases "id' product \<in> id' ` set cart")
  case True
  from addToCart_present [OF assms True] obtain st' pre l post n where
    h: "addToCart product st = Done st'" "cart = pre @ l # post" "id' l = id' product"
       "id' product \<notin> id' ` set pre" "ToNumber (quantity l) = Num n"
       "getCart st' = Inr (Arr (pre @ l\<lparr>quantity := Num (toDouble (n + 1))\<rparr> # post))"
    by blast
  have "\<bar>n + 1\<bar> \<le> 2 ^ 53 \<longrightarrow>
          getCart st' = Inr (Arr (pre @ l\<lparr>quantity := Num (n + 1)\<rparr> # post))"
    using h(6) by (simp add: toDouble_exact)
  with h True show ?thesis by auto
next
  case False
  from addToCart_absent [OF assms False] have 1: "\<exists>st'. addToCart product st = Done st' \<and>
     getCart st' = Inr (Arr (cart @ [\<lparr>id' = id' product, name = name product, price = price product,
                                       img = img product, quantity = Num 1\<rparr>]))"
    by (simp add: newItem_def)
  have 2: "\<forall>N>0. int N \<le> 2 ^ 53 \<longrightarrow>
               (\<exists>st'. calls N (addToCart product) st = Done st' \<and>
                  getCart st' =
                    Inr (Arr (cart @ [\<lparr>id' = id' product, name = name product, price = price product,
                                       img = img product, quantity = Num (int N)\<rparr>])))"
  proof (intro allI impI)
    fix N :: nat assume "0 < N" and "int N \<le> 2 ^ 53"
    from calls_addToCart_fresh [OF assms False this]
    show "\<exists>st'. calls N (addToCart product) st = Done st' \<and>
               getCart st' =
                 Inr (Arr (cart @ [\<lparr>id' = id' product, name = name product, price = price product,
                                    img = img product, quantity = Num (int N)\<rparr>]))"
      by (simp add: newItem_def)
  qed
  from 1 2 False show ?thesis by simp
qed

lemma getCart_page1:
  "getCart page1 =
     Inr (Arr [\<lparr>id' = ''p1'', name = ''Shirt'', price = 1500, img = ''x'', quantity = Num 2\<rparr>])"
  by (simp add: page1_def getCart_def parse_item_def)

theorem addToCart_increments_or_appends_witness:
  "getCart page1 =
     Inr (Arr [\<lparr>id' = ''p1'', name = ''Shirt'', price = 1500, img = ''x'', quantity = Num 2\<rparr>])
   \<and> (\<exists>st'. addToCart shirt page1 = Done st' \<and> getCart st' =
         Inr (Arr [\<lparr>id' = ''p1'', name = ''Shirt'', price = 1500, img = ''x'', quantity = Num 3\<rparr>]))
   \<and> (\<exists>st'. addToCart scarf page1 = Done st' \<and> getCart st' =
         Inr (Arr [\<lparr>id' = ''p1'', name = ''Shirt'', price = 1500, img = ''x'', quantity = Num 2\<rparr>,
                   \<lparr>id' = ''p2'', name = ''Scarf'', price = 800, img = ''y'', quantity = Num 1\<rparr>]))
   \<and> (\<exists>st'. calls 3 (addToCart scarf) page1 = Done st' \<and> getCart st' =
         Inr (Arr [\<lparr>id' = ''p1'', name = ''Shirt'', price = 1500, img = ''x'', quantity = Num 2\<rparr>,
                   \<lparr>id' = ''p2'', name = ''Scarf'', price = 800, img = ''y'', quantity = Num 3\<rparr>]))"
proof -
  let ?l = "\<lparr>id' = ''p1'', name = ''Shirt'', price = 1500, img = ''x'', quantity = Num 2\<rparr>"
  note g = getCart_page1
  have a: "\<exists>st'. addToCart shirt page1 = Done st' \<and> getCart st' = Inr (Arr [?l\<lparr>quantity := Num 3\<rparr>])"
    using addToCart_increments_or_appends [OF g, of shirt]
    by (auto simp: shirt_def append_eq_Cons_conv Cons_eq_append_conv)
  have b: "\<exists>st'. addToCart scarf page1 = Done st' \<and> getCart st' =
         Inr (Arr [?l, \<lparr>id' = ''p2'', name = ''Scarf'', price = 800, img = ''y'', quantity = Num 1\<rparr>])"
    using addToCart_increments_or_appends [OF g, of scarf]
    by (simp add: scarf_def)
  have c: "\<exists>st'. calls 3 (addToCart scarf) page1 = Done st' \<and> getCart st' =
         Inr (Arr [?l, \<lparr>id' = ''p2'', name = ''Scarf'', price = 800, img = ''y'', quantity = Num 3\<rparr>])"
  proof -
    from addToCart_increments_or_appends [OF g, of scarf]
    have "\<forall>N>0. int N \<le> 2 ^ 53 \<longrightarrow> (\<exists>st'. calls N (addToCart scarf) page1 = Done st' \<and> getCart st' =
         Inr (Arr [?l, \<lparr>id' = ''p2'', name = ''Scarf'', price = 800, img = ''y'', quantity = Num (int N)\<rparr>]))"
      by (simp add: scarf_def)
    from this [rule_format, of 3] show ?thesis by simp
  qed
  from g a b c show ?thesis by simp
qed

text \<open>
  The claim as stated fails at a stored quantity of \<^verbatim>\<open>9007199254740992\<close>:
  \<^verbatim>\<open>addToCart\<close> for that product stores the same quantity again, not that quantity plus 1.
\<close>

theorem addToCart_keeps_largest_quantity:
  "getCart pageBig =
     Inr (Arr [\<lparr>id' = ''p1'', name = ''Shirt'', price = 1500, img = ''x'',
                 quantity = Num 9007199254740992\<rparr>])
   \<and> getCart (stateOf (addToCart shirt pageBig)) =
     Inr (Arr [\<lparr>id' = ''p1'', name = ''Shirt'', price = 1500, img = ''x'',
                 quantity = Num 9007199254740992\<rparr>])
   \<and> getCart (stateOf (addToCart shirt pageBig)) \<noteq>
     Inr (Arr [\<lparr>id' = ''p1'', name = ''Shirt'', price = 1500, img = ''x'',
                 quantity = Num (9007199254740992 + 1)\<rparr>])"
  by code_simp

subsection \<open>Setting a quantity\<close>

lemma stored_array_unchanged:
  assumes "localStorage st ''nassimStitchesCart'' = Some (JsonArray ls)"
  shows "(localStorage st)(''nassimStitchesCart'' \<mapsto> JSON_stringify (map parse_item ls)) = localStorage st"
  using assms by (auto simp: JSON_stringify_def stringify_parse_item comp_def)

lemma updateQuantity_remove:
  assumes g: "getCart st = Inr (Arr cart)" and q: "q < 1"
  shows "\<exists>st'. updateQuantity productId (Num q) st = Done st'
           \<and> getCart st' = Inr (Arr (filter (\<lambda>l. id' l \<noteq> productId) cart))"
proof -
  from updateQuantity_Done [OF g, of productId "Num q"] q obtain st' where
    d: "updateQuantity productId (Num q) st = Done st'"
    and l: "localStorage st' = (localStorage st)(''nassimStitchesCart'' \<mapsto>
              JSON_stringify (filter (\<lambda>item. id' item \<noteq> productId) cart))"
    by auto
  have "getCart st' = Inr (Arr (filter (\<lambda>l. id' l \<noteq> productId) cart))"
    by (rule getCart_after [OF l]) (use getCart_no_NaN [OF g] in auto)
  with d show ?thesis by blast
qed

lemma updateQuantity_set:
  assumes g: "getCart st = Inr (Arr cart)" and q: "1 \<le> q" and a: "productId \<in> id' ` set cart"
  shows "\<exists>st' pre l post. updateQuantity productId (Num q) st = Done st'
           \<and> cart = pre @ l # post \<and> id' l = productId \<and> productId \<notin> id' ` set pre
           \<and> getCart st' = Inr (Arr (pre @ l\<lparr>quantity := Num q\<rparr> # post))"
proof -
  let ?P = "\<lambda>item. id' item = productId"
  let ?f = "\<lambda>item::item. item\<lparr>quantity := Num q\<rparr>"
  from a have ex: "\<exists>x\<in>set cart. ?P x" by auto
  from a have "find ?P cart \<noteq> None" by (simp add: find_None_iff_ids)
  then obtain x where f: "find ?P cart = Some x" by blast
  from update_first_split [OF ex, of ?f] obtain pre l post where
    s: "cart = pre @ l # post" "id' l = productId" "\<forall>x\<in>set pre. id' x \<noteq> productId"
       "update_first ?P ?f cart = pre @ ?f l # post"
    by blast
  from updateQuantity_Done [OF g, of productId "Num q"] q f s(4) obtain st' where
    d: "updateQuantity productId (Num q) st = Done st'"
    and l: "localStorage st' = (localStorage st)(''nassimStitchesCart'' \<mapsto>
              JSON_stringify (pre @ l\<lparr>quantity := Num q\<rparr> # post))"
    by auto
  have "getCart st' = Inr (Arr (pre @ l\<lparr>quantity := Num q\<rparr> # post))"
  proof (rule getCart_after [OF l])
    fix x assume "x \<in> set (pre @ l\<lparr>quantity := Num q\<rparr> # post)"
    then have "x \<in> set cart \<or> quantity x = Num q" using s(1) by auto
    then show "quantity x \<noteq> NaN" using getCart_no_NaN [OF g] by auto
  qed
  moreover from s(3) have "productId \<notin> id' ` set pre" by auto
  ultimately show ?thesis using d s(1,2) by blast
qed

lemma updateQuantity_absent:
  assumes g: "getCart st = Inr (Arr cart)" and q: "1 \<le> q" and a: "productId \<notin> id' ` set cart"
  shows "\<exists>st'. updateQuantity productId (Num q) st = Done st'
           \<and> getCart st' = getCart st
           \<and> (\<forall>ls. localStorage st ''nassimStitchesCart'' = Some (JsonArray ls) \<longrightarrow>
                  localStorage st' = localStorage st)"
proof -
  from a have f: "find (\<lambda>item. id' item = productId) cart = None"
    by (simp add: find_None_iff_ids)
  from updateQuantity_Done [OF g, of productId "Num q"] q f obtain st' where
    d: "updateQuantity productId (Num q) st = Done st'"
    and l: "localStorage st' = (localStorage st)(''nassimStitchesCart'' \<mapsto> JSON_stringify cart)"
    by auto
  have 1: "getCart st' = getCart st"
    unfolding g by (rule getCart_after [OF l]) (use getCart_no_NaN [OF g] in auto)
  have 2: "\<forall>ls. localStorage st ''nassimStitchesCart'' = Some (JsonArray ls) \<longrightarrow>
                  localStorage st' = localStorage st"
  proof (intro allI impI)
    fix ls assume s: "localStorage st ''nassimStitchesCart'' = Some (JsonArray ls)"
    with g have "cart = map parse_item ls" by (simp add: getCart_def)
    with l stored_array_unchanged [OF s] show "localStorage st' = localStorage st" by simp
  qed
  from d 1 2 show ?thesis by blast
qed

text \<open>
  C3: on a stored cart, \<^verbatim>\<open>updateQuantity(productId, quantity)\<close> with a number returns (no
  quantity is an error). With \<^verbatim>\<open>quantity < 1\<close> the cart then stored is the old one without
  the lines of that id. With \<^verbatim>\<open>quantity >= 1\<close> and a line of that id, it is the old one
  with the quantity of the first such line overwritten by the given value. With
  \<^verbatim>\<open>quantity >= 1\<close> and no line of that id, the cart read back is the one read before,
  and a storage that held an array is the same storage afterwards.
\<close>

theorem updateQuantity_sets_or_removes:
  assumes "getCart st = Inr (Arr cart)"
  shows "\<exists>st'. updateQuantity productId (Num q) st = Done st' \<and>
           (if q < 1
            then getCart st' = Inr (Arr (filter (\<lambda>l. id' l \<noteq> productId) cart))
            else if productId \<in> id' ` set cart
            then \<exists>pre l post. cart = pre @ l # post \<and> id' l = productId
                   \<and> productId \<notin> id' ` set pre
                   \<and> getCart st' = Inr (Arr (pre @ l\<lparr>quantity := Num q\<rparr> # post))
            else getCart st' = getCart st
                   \<and> (\<forall>ls. localStorage st ''nassimStitchesCart'' = Some (JsonArray ls) \<longrightarrow>
                         localStorage st' = localStorage st))"
proof (cases "q < 1")
  case True
  from updateQuantity_remove [OF assms True] show ?thesis using True by auto
next
  case False
  then have q: "1 \<le> q" by simp
  show ?thesis
  proof (cases "productId \<in> id' ` set cart")
    case True
    from updateQuantity_set [OF assms q True] show ?thesis using True False by auto
  next
    case no: False
    from updateQuantity_absent [OF assms q no] show ?thesis using no False by auto
  qed
qed

theorem updateQuantity_sets_or_removes_witness:
  "getCart page1 =
     Inr (Arr [\<lparr>id' = ''p1'', name = ''Shirt'', price = 1500, img = ''x'', quantity = Num 2\<rparr>])
   \<and> (\<exists>st'. updateQuantity ''p1'' (Num 0) page1 = Done st' \<and> getCart st' = Inr (Arr []))
   \<and> (\<exists>st'. updateQuantity ''p1'' (Num (- 5)) page1 = Done st' \<and> getCart st' = Inr (Arr []))
   \<and> (\<exists>st'. updateQuantity ''p1'' (Num 5) page1 = Done st' \<and> getCart st' =
         Inr (Arr [\<lparr>id' = ''p1'', name = ''Shirt'', price = 1500, img = ''x'', quantity = Num 5\<rparr>]))
   \<and> (\<exists>st'. updateQuantity ''p2'' (Num 3) page1 = Done st' \<and> getCart st' = getCart page1
         \<and> localStorage st' = localStorage page1)"
proof -
  let ?l = "\<lparr>id' = ''p1'', name = ''Shirt'', price = 1500, img = ''x'', quantity = Num 2\<rparr>"
  note g = getCart_page1
  have a: "\<exists>st'. updateQuantity ''p1'' (Num 0) page1 = Done st' \<and> getCart st' = Inr (Arr [])"
    using updateQuantity_sets_or_removes [OF g, of "''p1''" 0] by simp
  have b: "\<exists>st'. updateQuantity ''p1'' (Num (- 5)) page1 = Done st' \<and> getCart st' = Inr (Arr [])"
    using updateQuantity_sets_or_removes [OF g, of "''p1''" "- 5"] by simp
  have c: "\<exists>st'. updateQuantity ''p1'' (Num 5) page1 = Done st' \<and> getCart st' = Inr (Arr [?l\<lparr>quantity := Num 5\<rparr>])"
    using updateQuantity_sets_or_removes [OF g, of "''p1''" 5]
    by (auto simp: append_eq_Cons_conv Cons_eq_append_conv)
  have d: "\<exists>st'. updateQuantity ''p2'' (Num 3) page1 = Done st' \<and> getCart st' = getCart page1
         \<and> localStorage st' = localStorage page1"
    using updateQuantity_sets_or_removes [OF g, of "''p2''" 3]
    by (simp add: page1_def)
  from g a b c d show ?thesis by simp
qed

subsection \<open>One line for each id\<close>

lemma id_reload: "map id' (map (\<lambda>l. parse_item (stringify_item l)) cart) = map id' cart"
  by (simp add: parse_item_def stringify_item_def comp_def)

lemma getCart_after_ids:
  assumes "localStorage st' = (localStorage st)(''nassimStitchesCart'' \<mapsto> JSON_stringify cart)"
  shows "\<exists>cart'. getCart st' = Inr (Arr cart') \<and> map id' cart' = map id' cart"
proof -
  have "getCart st' = Inr (Arr (map (\<lambda>l. parse_item (stringify_item l)) cart))"
    by (rule getCart_stored) (simp add: assms)
  with id_reload [of cart] show ?thesis by blast
qed

lemma distinct_addToCart:
  assumes "distinct (map id' cart)"
  shows "distinct (map id'
           (case find (\<lambda>item. id' item = id' product) cart of
              Some existingItem \<Rightarrow>
                update_first (\<lambda>item. id' item = id' product)
                  (\<lambda>item. item\<lparr>quantity := increment (quantity item)\<rparr>) cart
            | None \<Rightarrow> cart @ [newItem product]))"
proof (cases "find (\<lambda>item. id' item = id' product) cart")
  case None
  then have "id' product \<notin> id' ` set cart" by (simp add: find_None_iff_ids)
  with assms None show ?thesis by (simp add: newItem_def)
next
  case (Some x)
  with assms show ?thesis by (simp add: map_id_update_first)
qed

lemma distinct_updateQuantity:
  assumes "distinct (map id' cart)"
  shows "distinct (map id'
           (if less_js q (Num 1)
            then filter (\<lambda>item. id' item \<noteq> productId) cart
            else (case find (\<lambda>item. id' item = productId) cart of
                    Some item \<Rightarrow>
                      update_first (\<lambda>item. id' item = productId)
                        (\<lambda>item. item\<lparr>quantity := q\<rparr>) cart
                  | None \<Rightarrow> cart)))"
  using assms by (simp add: map_id_update_first distinct_map_filter split: option.split)

text \<open>
  C4: when the ids of the lines of the stored cart are pairwise distinct, each of
  \<^verbatim>\<open>addToCart\<close>, \<^verbatim>\<open>updateQuantity\<close> (with any quantity, \<^verbatim>\<open>NaN\<close> and \<^verbatim>\<open>null\<close>
  included), \<^verbatim>\<open>removeItemFromCart\<close> and \<^verbatim>\<open>clearCart\<close> returns and leaves a stored
  cart whose ids are pairwise distinct.
\<close>

theorem operations_keep_ids_distinct:
  assumes "getCart st = Inr (Arr cart)" and "distinct (map id' cart)"
  shows "(\<exists>st' cart'. addToCart product st = Done st' \<and> getCart st' = Inr (Arr cart')
            \<and> distinct (map id' cart'))
       \<and> (\<exists>st' cart'. updateQuantity productId q st = Done st' \<and> getCart st' = Inr (Arr cart')
            \<and> distinct (map id' cart'))
       \<and> (\<exists>st' cart'. removeItemFromCart productId st = Done st' \<and> getCart st' = Inr (Arr cart')
            \<and> distinct (map id' cart'))
       \<and> (\<exists>st' cart'. clearCart st = Done st' \<and> getCart st' = Inr (Arr cart')
            \<and> distinct (map id' cart'))"
proof -
  have a: "\<exists>st' cart'. addToCart product st = Done st' \<and> getCart st' = Inr (Arr cart')
            \<and> distinct (map id' cart')"
  proof -
    from addToCart_Done [OF assms(1), of product] obtain st' where
      d: "addToCart product st = Done st'" and
      l: "localStorage st' = (localStorage st)(''nassimStitchesCart'' \<mapsto> JSON_stringify
             (case find (\<lambda>item. id' item = id' product) cart of
                Some existingItem \<Rightarrow>
                  update_first (\<lambda>item. id' item = id' product)
                    (\<lambda>item. item\<lparr>quantity := increment (quantity item)\<rparr>) cart
              | None \<Rightarrow> cart @ [newItem product]))"
      by blast
    from getCart_after_ids [OF l] distinct_addToCart [OF assms(2), of product] d
    show ?thesis by metis
  qed
  have u: "\<exists>st' cart'. updateQuantity productId q st = Done st' \<and> getCart st' = Inr (Arr cart')
            \<and> distinct (map id' cart')"
  proof -
    from updateQuantity_Done [OF assms(1), of productId q] obtain st' where
      d: "updateQuantity productId q st = Done st'" and
      l: "localStorage st' = (localStorage st)(''nassimStitchesCart'' \<mapsto> JSON_stringify
             (if less_js q (Num 1)
              then filter (\<lambda>item. id' item \<noteq> productId) cart
              else (case find (\<lambda>item. id' item = productId) cart of
                      Some item \<Rightarrow>
                        update_first (\<lambda>item. id' item = productId)
                          (\<lambda>item. item\<lparr>quantity := q\<rparr>) cart
                    | None \<Rightarrow> cart)))"
      by blast
    from getCart_after_ids [OF l] distinct_updateQuantity [OF assms(2), of q productId] d
    show ?thesis by metis
  qed
  have r: "\<exists>st' cart'. removeItemFromCart productId st = Done st' \<and> getCart st' = Inr (Arr cart')
            \<and> distinct (map id' cart')"
  proof -
    from removeItemFromCart_Done [OF assms(1), of productId] obtain st' where
      d: "removeItemFromCart productId st = Done st'" and
      l: "localStorage st' = (localStorage st)(''nassimStitchesCart'' \<mapsto> JSON_stringify
             (filter (\<lambda>item. id' item \<noteq> productId) cart))"
      by blast
    from assms(2) have "distinct (map id' (filter (\<lambda>item. id' item \<noteq> productId) cart))"
      by (simp add: distinct_map_filter)
    with getCart_after_ids [OF l] d show ?thesis by metis
  qed
  have c: "\<exists>st' cart'. clearCart st = Done st' \<and> getCart st' = Inr (Arr cart')
            \<and> distinct (map id' cart')"
    by (simp add: clearCart_Done getCart_def)
  from a u r c show ?thesis by blast
qed

theorem operations_keep_ids_distinct_witness:
  "getCart page1 =
     Inr (Arr [\<lparr>id' = ''p1'', name = ''Shirt'', price = 1500, img = ''x'', quantity = Num 2\<rparr>])
   \<and> distinct (map id' [\<lparr>id' = ''p1'', name = ''Shirt'', price = 1500, img = ''x'', quantity = Num 2\<rparr>])
   \<and> (\<exists>st' cart'. addToCart scarf page1 = Done st' \<and> getCart st' = Inr (Arr cart')
            \<and> distinct (map id' cart'))
   \<and> (\<exists>st' cart'. updateQuantity ''p1'' NaN page1 = Done st' \<and> getCart st' = Inr (Arr cart')
            \<and> distinct (map id' cart'))
   \<and> (\<exists>st' cart'. removeItemFromCart ''p1'' page1 = Done st' \<and> getCart st' = Inr (Arr cart')
            \<and> distinct (map id' cart'))
   \<and> (\<exists>st' cart'. clearCart page1 = Done st' \<and> getCart st' = Inr (Arr cart')
            \<and> distinct (map id' cart'))"
proof -
  have d: "distinct (map id' [\<lparr>id' = ''p1'', name = ''Shirt'', price = 1500, img = ''x'', quantity = Num 2\<rparr>])"
    by simp
  from operations_keep_ids_distinct [OF getCart_page1 d, of scarf "''p1''" NaN] getCart_page1 d
  show ?thesis by blast
qed

subsection \<open>The badge shows the total quantity\<close>









subsection \<open>The subtotals of the two renderers\<close>












subsection \<open>A cart text that is missing or malformed\<close>









subsection \<open>A quantity that is no number\<close>

lemma parseInt_no_digits: "parseInt [] = NaN" "parseInt ''abc'' = NaN"
  by (simp_all add: parseInt_def isWhiteSpace_def isDigit_def)

lemma stringify_update_NaN:
  "JSON_stringify (pre @ l\<lparr>quantity := NaN\<rparr> # post)
     = JSON_stringify (pre @ l\<lparr>quantity := Null\<rparr> # post)"
  by (simp add: JSON_stringify_def stringify_item_def)

text \<open>
  C10, as the script has it: when the stored cart has a line with the given id,
  \<^verbatim>\<open>updateQuantity(productId, NaN)\<close> returns and removes nothing: \<^verbatim>\<open>NaN < 1\<close> is false,
  the quantity of the first line with that id is overwritten with \<^verbatim>\<open>NaN\<close> in the array
  that is handed to \<^verbatim>\<open>saveCart\<close>, and \<^verbatim>\<open>JSON.stringify\<close> writes that quantity as
  \<^verbatim>\<open>null\<close>: the stored line has the quantity \<^verbatim>\<open>null\<close>, and so has the line that
  \<^verbatim>\<open>getCart\<close> reads back. \<^verbatim>\<open>parseInt\<close> gives \<^verbatim>\<open>NaN\<close> for an input without digits.
\<close>

theorem updateQuantity_NaN_stores_null:
  assumes "getCart st = Inr (Arr cart)" and "productId \<in> id' ` set cart"
  shows "parseInt [] = NaN \<and> \<not> less_js NaN (Num 1)
       \<and> (\<exists>st' pre l post. updateQuantity productId NaN st = Done st'
             \<and> cart = pre @ l # post \<and> id' l = productId \<and> productId \<notin> id' ` set pre
             \<and> localStorage st' ''nassimStitchesCart'' =
                 Some (JSON_stringify (pre @ l\<lparr>quantity := NaN\<rparr> # post))
             \<and> stringify_number NaN = None
             \<and> getCart st' = Inr (Arr (pre @ l\<lparr>quantity := Null\<rparr> # post)))"
proof -
  let ?P = "\<lambda>item. id' item = productId"
  let ?f = "\<lambda>item::item. item\<lparr>quantity := NaN\<rparr>"
  from assms(2) have ex: "\<exists>x\<in>set cart. ?P x" by auto
  from assms(2) have "find ?P cart \<noteq> None" by (simp add: find_None_iff_ids)
  then obtain x where f: "find ?P cart = Some x" by blast
  from update_first_split [OF ex, of ?f] obtain pre l post where
    s: "cart = pre @ l # post" "id' l = productId" "\<forall>x\<in>set pre. id' x \<noteq> productId"
       "update_first ?P ?f cart = pre @ ?f l # post"
    by blast
  from updateQuantity_Done [OF assms(1), of productId NaN] f s(4) obtain st' where
    d: "updateQuantity productId NaN st = Done st'"
    and l: "localStorage st' = (localStorage st)(''nassimStitchesCart'' \<mapsto>
              JSON_stringify (pre @ l\<lparr>quantity := NaN\<rparr> # post))"
    by auto
  from l have l': "localStorage st' = (localStorage st)(''nassimStitchesCart'' \<mapsto>
              JSON_stringify (pre @ l\<lparr>quantity := Null\<rparr> # post))"
    by (simp add: stringify_update_NaN)
  have g: "getCart st' = Inr (Arr (pre @ l\<lparr>quantity := Null\<rparr> # post))"
  proof (rule getCart_after [OF l'])
    fix x assume "x \<in> set (pre @ l\<lparr>quantity := Null\<rparr> # post)"
    then have "x \<in> set cart \<or> quantity x = Null" using s(1) by auto
    then show "quantity x \<noteq> NaN" using getCart_no_NaN [OF assms(1)] by auto
  qed
  from l have k: "localStorage st' ''nassimStitchesCart'' =
                 Some (JSON_stringify (pre @ l\<lparr>quantity := NaN\<rparr> # post))"
    by simp
  from s(3) have "productId \<notin> id' ` set pre" by auto
  with d s(1,2) k g have "\<exists>st' pre l post. updateQuantity productId NaN st = Done st'
             \<and> cart = pre @ l # post \<and> id' l = productId \<and> productId \<notin> id' ` set pre
             \<and> localStorage st' ''nassimStitchesCart'' =
                 Some (JSON_stringify (pre @ l\<lparr>quantity := NaN\<rparr> # post))
             \<and> stringify_number NaN = None
             \<and> getCart st' = Inr (Arr (pre @ l\<lparr>quantity := Null\<rparr> # post))"
    by auto
  then show ?thesis by (simp add: parseInt_no_digits)
qed

theorem updateQuantity_NaN_stores_null_witness:
  "getCart page1 =
     Inr (Arr [\<lparr>id' = ''p1'', name = ''Shirt'', price = 1500, img = ''x'', quantity = Num 2\<rparr>])
   \<and> ''p1'' \<in> id' ` set [\<lparr>id' = ''p1'', name = ''Shirt'', price = 1500, img = ''x'', quantity = Num 2\<rparr>]
   \<and> (\<exists>st'. updateQuantity ''p1'' NaN page1 = Done st'
         \<and> localStorage st' ''nassimStitchesCart'' =
             Some (JsonArray [\<lparr>id' = ''p1'', name = ''Shirt'', price = 1500, img = ''x'', quantity = None\<rparr>])
         \<and> getCart st' =
             Inr (Arr [\<lparr>id' = ''p1'', name = ''Shirt'', price = 1500, img = ''x'', quantity = Null\<rparr>]))"
proof -
  have h: "''p1'' \<in> id' ` set [\<lparr>id' = ''p1'', name = ''Shirt'', price = 1500, img = ''x'', quantity = Num 2\<rparr>]"
    by simp
  from updateQuantity_NaN_stores_null [OF getCart_page1 h] getCart_page1 h
  show ?thesis
    by (auto simp: append_eq_Cons_conv Cons_eq_append_conv JSON_stringify_def stringify_item_def)
qed

text \<open>
  The claim as stated fails: what is stored after \<^verbatim>\<open>updateQuantity('p1', NaN)\<close> is a line
  with the quantity \<^verbatim>\<open>null\<close>, not \<^verbatim>\<open>NaN\<close>; the badge then counts that line as 0 and
  the next \<^verbatim>\<open>addToCart\<close> makes its quantity 1.
\<close>

theorem NaN_is_not_persisted:
  "getCart (stateOf (updateQuantity ''p1'' (parseInt ''abc'') page1)) =
     Inr (Arr [\<lparr>id' = ''p1'', name = ''Shirt'', price = 1500, img = ''x'', quantity = Null\<rparr>])
   \<and> getCart (stateOf (updateQuantity ''p1'' (parseInt ''abc'') page1)) \<noteq>
     Inr (Arr [\<lparr>id' = ''p1'', name = ''Shirt'', price = 1500, img = ''x'', quantity = NaN\<rparr>])
   \<and> getCart (step (ChangeQuantity ''p1'' []) rendered1) =
     Inr (Arr [\<lparr>id' = ''p1'', name = ''Shirt'', price = 1500, img = ''x'', quantity = Null\<rparr>])
   \<and> cartCountElements (step (ChangeQuantity ''p1'' []) rendered1) =
     [\<lparr>textContent = OfNumber (Num 2), display = ''none''\<rparr>]
   \<and> getCart (stateOf (addToCart shirt (step (ChangeQuantity ''p1'' []) rendered1))) =
     Inr (Arr [\<lparr>id' = ''p1'', name = ''Shirt'', price = 1500, img = ''x'', quantity = Num 1\<rparr>])"
  by code_simp

subsection \<open>Which projections an operation derives again\<close>















subsection \<open>The dialog that confirms a removal\<close>

lemma openRemoveModal_storage: "localStorage (openRemoveModal k i st) = localStorage st"
  by (simp add: openRemoveModal_def)

lemma ClickRemove_keeps_storage: "localStorage (step (ClickRemove i) st) = localStorage st"
  by (simp add: openRemoveModal_storage)

lemma ClickRemove_records_target:
  assumes "hasRow i st" and "productIdToRemove st \<noteq> []"
  shows "last (productIdToRemove (step (ClickRemove i) st)) = Some i"
  using assms by (simp add: openRemoveModal_def last_list_update)

lemma foldl_closeRemoveModal:
  "localStorage (foldl (\<lambda>s k. closeRemoveModal k s) st ks) = localStorage st
   \<and> length (productIdToRemove (foldl (\<lambda>s k. closeRemoveModal k s) st ks))
       = length (productIdToRemove st)
   \<and> (\<forall>i < length (productIdToRemove st).
         productIdToRemove (foldl (\<lambda>s k. closeRemoveModal k s) st ks) ! i
           = (if i \<in> set ks then None else productIdToRemove st ! i))
   \<and> (ks \<noteq> [] \<longrightarrow> removeModal (foldl (\<lambda>s k. closeRemoveModal k s) st ks)
                      = map_option (\<lambda>_. False) (removeModal st))"
proof (induction ks arbitrary: st)
  case Nil
  then show ?case by simp
next
  case (Cons k ks)
  let ?s = "closeRemoveModal k st"
  have s: "localStorage ?s = localStorage st"
    "length (productIdToRemove ?s) = length (productIdToRemove st)"
    "\<And>i. i < length (productIdToRemove st) \<Longrightarrow>
       productIdToRemove ?s ! i = (if i = k then None else productIdToRemove st ! i)"
    "removeModal ?s = map_option (\<lambda>_. False) (removeModal st)"
    by (simp_all add: closeRemoveModal_def nth_list_update)
  from Cons.IH [of ?s] s show ?case
    by (cases "ks = []") (auto simp: option.map_comp comp_def)
qed

lemma cancel_clears_and_keeps_storage:
  assumes "e = ClickCancel \<or> e = ClickClose"
  shows "localStorage (step e st) = localStorage st
       \<and> (\<forall>x\<in>set (productIdToRemove (step e st)). x = None)
       \<and> (productIdToRemove st \<noteq> [] \<longrightarrow>
             removeModal (step e st) = map_option (\<lambda>_. False) (removeModal st))"
proof -
  let ?ks = "[0..<length (productIdToRemove st)]"
  let ?t = "foldl (\<lambda>s k. closeRemoveModal k s) st ?ks"
  from assms have e: "step e st = ?t" by auto
  note f = foldl_closeRemoveModal [of st ?ks]
  have "\<forall>x\<in>set (productIdToRemove ?t). x = None"
  proof
    fix x assume "x \<in> set (productIdToRemove ?t)"
    then obtain i where "i < length (productIdToRemove ?t)" "productIdToRemove ?t ! i = x"
      by (auto simp: in_set_conv_nth)
    with f show "x = None" by auto
  qed
  moreover from f have "productIdToRemove st \<noteq> [] \<longrightarrow>
             removeModal ?t = map_option (\<lambda>_. False) (removeModal st)"
    by simp
  ultimately show ?thesis using f e by simp
qed

text \<open>
  C7 fails on the script. The page shows three lines. The remove control of the shirt is
  clicked; the quantity of the hat is changed to 4, so \<^verbatim>\<open>updateQuantity\<close> runs
  \<^verbatim>\<open>initCartPage\<close> again, which puts a second listener with a variable of its own on the
  confirm button; the remove control of the scarf is clicked. Now the first variable still
  holds the shirt and the second holds the scarf: the new request has not overwritten the
  pending one. One click on the confirm button calls \<^verbatim>\<open>removeItemFromCart\<close> for both,
  and only the hat is left. Without the change of quantity in between, the second request
  overwrites the first and the click removes the scarf only.
\<close>

theorem confirm_removes_overwritten_target:
  "productIdToRemove (run [ClickRemove ''p1'', ChangeQuantity ''p3'' ''4'', ClickRemove ''p2''] rendered3)
     = [Some ''p1'', Some ''p2'']
   \<and> getCart (run [ClickRemove ''p1'', ChangeQuantity ''p3'' ''4'', ClickRemove ''p2'', ClickConfirm] rendered3)
     = Inr (Arr [\<lparr>id' = ''p3'', name = ''Hat'', price = 500, img = ''z'', quantity = Num 4\<rparr>])
   \<and> productIdToRemove (run [ClickRemove ''p1'', ClickRemove ''p2''] rendered3) = [Some ''p2'']
   \<and> getCart (run [ClickRemove ''p1'', ClickRemove ''p2'', ClickConfirm] rendered3)
     = Inr (Arr [\<lparr>id' = ''p1'', name = ''Shirt'', price = 1500, img = ''x'', quantity = Num 1\<rparr>,
                 \<lparr>id' = ''p3'', name = ''Hat'', price = 500, img = ''z'', quantity = Num 1\<rparr>])"
  by code_simp

end
